theory Spec2Isabelle
  imports Main "HOL-Library.Word"
begin

section \<open>The terminal module of espurna (code/espurna/terminal.cpp)\<close>

text \<open>
  A shallow embedding of the parts of the terminal module that carry state: the
  single-slot hostname-resolution task (\<open>commands::dns\<close>), the HOST and HELP
  commands, the serial polling loop and the message transport adapters (MQTT, web
  socket, HTTP API).

  Strings are \<open>string\<close> (byte lists without the terminating NUL). A \<open>Print\<close> sink
  (\<open>ctx.output\<close>, the serial port, a \<open>PrintString\<close>) is the string of all bytes written
  to it so far; writing appends.
\<close>

subsection \<open>Characters and strings\<close>

abbreviation LF :: char where "LF \<equiv> CHR 0x0A"
abbreviation CR :: char where "CR \<equiv> CHR 0x0D"

text \<open>\<open>String::endsWith\<close> of the Arduino core: the suffix test.\<close>

definition endsWith :: "string \<Rightarrow> string \<Rightarrow> bool" where
  "endsWith s suffix =
     (length suffix \<le> length s \<and> drop (length s - length suffix) s = suffix)"

subsection \<open>Status helpers\<close>

text \<open>
  Modelled from the spec: \<open>espurna::terminal::ok\<close> and \<open>espurna::terminal::error\<close>
  (declared in terminal.h, defined outside this file). The spec, sections 4.3 and 6:
  "\<open>ok(ctx)\<close> writes a fixed success marker; \<open>error(ctx, message)\<close> writes a fixed
  failure marker followed by \<open>message\<close>", "both newline-terminated". The text of the two
  markers is not fixed by the spec, so it is a parameter.
\<close>

record markers =
  ok_marker :: string
  error_marker :: string

definition terminal_ok :: "markers \<Rightarrow> string \<Rightarrow> string" where
  "terminal_ok mk out = out @ ok_marker mk @ [LF]"

definition terminal_error :: "markers \<Rightarrow> string \<Rightarrow> string \<Rightarrow> string" where
  "terminal_error mk message out = out @ error_marker mk @ message @ [LF]"

text \<open>
  \<open>CommandContext\<close>: the arguments and the output sink of one invocation. The sink is a
  reference in the source; here the context carries the bytes written to it.
\<close>

record CommandContext =
  argv :: "string list"
  ctx_output :: string

text \<open>\<open>terminalOK\<close> and \<open>terminalError\<close> (lines 717-723) forward to the helpers.\<close>

definition terminalOK :: "markers \<Rightarrow> CommandContext \<Rightarrow> CommandContext" where
  "terminalOK mk ctx = ctx\<lparr>ctx_output := terminal_ok mk (ctx_output ctx)\<rparr>"

definition terminalError :: "markers \<Rightarrow> string \<Rightarrow> CommandContext \<Rightarrow> CommandContext" where
  "terminalError mk message ctx = ctx\<lparr>ctx_output := terminal_error mk message (ctx_output ctx)\<rparr>"

subsection \<open>The hostname-resolution task (namespace commands::dns)\<close>

text \<open>
  \<open>ip_addr_t\<close> is lwIP's IPv4 address, a 32-bit word in network byte order;
  \<open>IPADDR_NONE\<close> is all ones. \<open>err_t\<close> lists the results \<open>dns_gethostbyname\<close> can
  give: the two the switch in \<open>start\<close> names, and its error results.
\<close>

type_synonym ip_addr_t = "32 word"

definition IPADDR_NONE :: ip_addr_t where
  "IPADDR_NONE = 0xFFFFFFFF"

datatype err_t = ERR_OK | ERR_INPROGRESS | ERR_MEM | ERR_VAL | ERR_ARG

text \<open>
  \<open>FoundCallback\<close> is \<open>std::function<void(const char* name, const ip_addr_t* addr, void* arg)>\<close>.
  The address pointer may be null (\<open>None\<close>). \<open>arg\<close> is \<open>nullptr\<close> at every call of this
  file and is left out. What the callback does, it does to the world outside the task
  slot (type \<open>'w\<close>; for the HOST command, the command context it prints to); it does not
  call back into \<open>dns::start\<close>.
\<close>

type_synonym 'w FoundCallback = "string \<Rightarrow> ip_addr_t option \<Rightarrow> 'w \<Rightarrow> 'w"

record 'w Task =
  hostname :: string
  callback :: "'w FoundCallback"
  addr :: ip_addr_t

text \<open>The constructor (lines 116-119): \<open>_addr\<close> starts as \<open>IPADDR_NONE\<close> (line 140).\<close>

definition Task_new :: "string \<Rightarrow> 'w FoundCallback \<Rightarrow> 'w Task" where
  "Task_new h cb = \<lparr>hostname = h, callback = cb, addr = IPADDR_NONE\<rparr>"

text \<open>\<open>Task::found_callback(name, addr, arg)\<close>, lines 129-131.\<close>

definition Task_found_callback :: "'w Task \<Rightarrow> string \<Rightarrow> ip_addr_t option \<Rightarrow> 'w \<Rightarrow> 'w" where
  "Task_found_callback t name a w = callback t name a w"

text \<open>\<open>Task::found_callback()\<close>, lines 133-135: the task's own name and \<open>&_addr\<close>.\<close>

definition Task_found_callback0 :: "'w Task \<Rightarrow> 'w \<Rightarrow> 'w" where
  "Task_found_callback0 t w = callback t (hostname t) (Some (addr t)) w"

text \<open>
  The state the namespace works on: the global slot \<open>internal::task\<close> (a
  \<open>std::unique_ptr<Task>\<close>, empty or owning one task) and the world the callbacks act on.
\<close>

record 'w dns =
  task :: "'w Task option"
  world :: 'w

text \<open>\<open>internal::found_callback\<close>, lines 146-151: what the resolver calls on completion.\<close>

definition found_callback :: "string \<Rightarrow> ip_addr_t option \<Rightarrow> 'w dns \<Rightarrow> 'w dns" where
  "found_callback name a s =
     (case task s of
        Some t \<Rightarrow> s\<lparr>world := Task_found_callback t name a (world s), task := None\<rparr>
      | None \<Rightarrow> s)"

text \<open>\<open>started\<close>, lines 155-157.\<close>

definition started :: "'w dns \<Rightarrow> bool" where
  "started s = (task s \<noteq> None)"

text \<open>
  \<open>dns_gethostbyname\<close> is lwIP's: given the name, it returns an \<open>err_t\<close> and, when it
  has the answer at once, stores the address through its second argument (\<open>Some\<close> the
  address stored, \<open>None\<close> when it stores nothing). It is a parameter of \<open>start\<close>.
\<close>

type_synonym resolver = "string \<Rightarrow> err_t \<times> ip_addr_t option"

text \<open>
  \<open>start\<close>, lines 159-177. The local \<open>task\<close> is destroyed when \<open>start\<close> returns unless it
  was moved into the slot; the switch has no default, so any other result does nothing.
  Moving into the slot destroys the task the slot held.
\<close>

definition start :: "resolver \<Rightarrow> string \<Rightarrow> 'w FoundCallback \<Rightarrow> 'w dns \<Rightarrow> 'w dns" where
  "start dns_gethostbyname h cb s =
     (let t0 = Task_new h cb;
          (result, stored) = dns_gethostbyname (hostname t0);
          t = (case stored of None \<Rightarrow> t0 | Some a \<Rightarrow> t0\<lparr>addr := a\<rparr>)
      in case result of
           ERR_OK \<Rightarrow> s\<lparr>world := Task_found_callback0 t (world s)\<rparr>
         | ERR_INPROGRESS \<Rightarrow> s\<lparr>task := Some t\<rparr>
         | _ \<Rightarrow> s)"

subsection \<open>The HOST command\<close>

text \<open>
  \<open>IPAddress(addr).toString()\<close> of the Arduino core: the four octets in decimal, the
  lowest byte of the word first (the word is in network byte order on a little-endian
  machine).
\<close>

fun digits :: "nat \<Rightarrow> string" where
  "digits n = (if n < 10 then [char_of (48 + n)] else digits (n div 10) @ [char_of (48 + n mod 10)])"

declare digits.simps [simp del]

definition octet :: "ip_addr_t \<Rightarrow> nat \<Rightarrow> nat" where
  "octet a i = unat (drop_bit (8 * i) a) mod 256"

definition toString :: "ip_addr_t \<Rightarrow> string" where
  "toString a =
     digits (octet a 0) @ ''.'' @ digits (octet a 1) @ ''.'' @
     digits (octet a 2) @ ''.'' @ digits (octet a 3)"

text \<open>The lambda of lines 188-196; it captures \<open>ctx\<close> by reference and prints to its sink.\<close>

definition host_callback :: "CommandContext FoundCallback" where
  "host_callback name a ctx =
     (case a of
        None \<Rightarrow> ctx\<lparr>ctx_output := ctx_output ctx @ name @ '' not found'' @ [LF]\<rparr>
      | Some ip \<Rightarrow> ctx\<lparr>ctx_output := ctx_output ctx @ name @ '' has address '' @ toString ip @ [LF]\<rparr>)"

text \<open>
  \<open>delay(100)\<close> yields to the SDK, and the resolver may complete during it. An event is
  what happens during one \<open>delay(100)\<close>: nothing, or the resolver calling
  \<open>internal::found_callback\<close> with a name and an address (null when the name was not
  found).
\<close>

type_synonym dns_event = "(string \<times> ip_addr_t option) option"

definition delay :: "dns_event \<Rightarrow> 'w dns \<Rightarrow> 'w dns" where
  "delay ev s = (case ev of None \<Rightarrow> s | Some (name, a) \<Rightarrow> found_callback name a s)"

text \<open>
  The wait loop of lines 198-200, \<open>while (dns::started()) delay(100);\<close>. The list holds
  everything the resolver will ever do, one entry per \<open>delay(100)\<close>; when it is used up
  with the task still pending, nothing will ever clear the slot and the loop does not
  return (\<open>None\<close>). The result counts the calls of \<open>delay\<close>.
\<close>

fun wait_loop :: "dns_event list \<Rightarrow> 'w dns \<Rightarrow> nat \<Rightarrow> ('w dns \<times> nat) option" where
  "wait_loop [] s n = (if started s then None else Some (s, n))"
| "wait_loop (ev # evs) s n =
     (if started s then wait_loop evs (delay ev s) (Suc n) else Some (s, n))"

text \<open>
  \<open>host\<close>, lines 181-201. The state pairs the global slot with the command's context
  (the world of its callback). \<open>ctx.argv[1]\<close> is read only when \<open>argv\<close> has two elements.
  Line 187 passes \<open>std::move(ctx.argv[1])\<close> to the by-value \<open>String\<close> parameter of
  \<open>start\<close>: the hostname is moved out of the context, and the moved-from \<open>String\<close> of
  the Arduino core is the empty string, so \<open>argv[1]\<close> is empty from the call on.
\<close>

definition host ::
  "markers \<Rightarrow> resolver \<Rightarrow> dns_event list \<Rightarrow> CommandContext dns \<Rightarrow> (CommandContext dns \<times> nat) option" where
  "host mk dns_gethostbyname evs s =
     (if length (argv (world s)) \<noteq> 2
      then Some (s\<lparr>world := terminalError mk ''HOST <hostname>'' (world s)\<rparr>, 0)
      else
        let h = argv (world s) ! 1;
            moved = s\<lparr>world := (world s)\<lparr>argv := (argv (world s))[1 := []]\<rparr>\<rparr>
        in wait_loop evs (start dns_gethostbyname h host_callback moved) 0)"

subsection \<open>The HELP command\<close>

text \<open>
  \<open>strncasecmp_P\<close> of the ESP8266 core compares at most \<open>size\<close> bytes, each through
  \<open>tolower\<close>, and stops at the first difference or at the NUL of the second string; the
  result is the difference of the two bytes it stopped at. A string's byte past its end
  is the NUL.
\<close>

definition tolower :: "nat \<Rightarrow> nat" where
  "tolower c = (if 65 \<le> c \<and> c \<le> 90 then c + 32 else c)"

fun byte0 :: "string \<Rightarrow> nat" where
  "byte0 [] = 0"
| "byte0 (c # cs) = of_char c"

fun strncasecmp_P :: "string \<Rightarrow> string \<Rightarrow> nat \<Rightarrow> int" where
  "strncasecmp_P str1 str2P 0 = 0"
| "strncasecmp_P str1 str2P (Suc sz) =
     (let ch1 = tolower (byte0 str1);
          ch2 = tolower (byte0 str2P);
          result = int ch1 - int ch2
      in if result \<noteq> 0 \<or> ch2 = 0 then result
         else strncasecmp_P (tl str1) (tl str2P) sz)"

text \<open>The comparison lambda of lines 73-79: only \<open>lhs.length()\<close> bytes are compared.\<close>

definition names_less :: "string \<Rightarrow> string \<Rightarrow> bool" where
  "names_less lhs rhs = (strncasecmp_P lhs rhs (length lhs) < 0)"

text \<open>
  \<open>std::sort\<close> is the C++ library's (libstdc++ in the ESP8266 toolchain). On a range of
  at most 16 elements it is an insertion sort: each element in turn goes to the front
  when it compares less than the first element, and otherwise moves left past every
  element it compares less than (\<open>__insertion_sort\<close> and \<open>__unguarded_linear_insert\<close>).
  \<open>linear_insert\<close> works on the sorted prefix in reverse, its last element first.
  On a longer range the library partitions first (introsort); that part is not
  modelled, and \<open>std_sort\<close> gives no result (\<open>None\<close>) for more than 16 elements.
\<close>

fun linear_insert :: "('a \<Rightarrow> 'a \<Rightarrow> bool) \<Rightarrow> 'a \<Rightarrow> 'a list \<Rightarrow> 'a list" where
  "linear_insert cmp val [] = [val]"
| "linear_insert cmp val (x # left) =
     (if cmp val x then x # linear_insert cmp val left else val # x # left)"

definition insert_sorted :: "('a \<Rightarrow> 'a \<Rightarrow> bool) \<Rightarrow> 'a list \<Rightarrow> 'a \<Rightarrow> 'a list" where
  "insert_sorted cmp sorted_prefix val =
     (case sorted_prefix of
        [] \<Rightarrow> [val]
      | first # _ \<Rightarrow>
          if cmp val first then val # sorted_prefix
          else rev (linear_insert cmp val (rev sorted_prefix)))"

definition insertion_sort :: "('a \<Rightarrow> 'a \<Rightarrow> bool) \<Rightarrow> 'a list \<Rightarrow> 'a list" where
  "insertion_sort cmp xs = foldl (insert_sorted cmp) [] xs"

definition std_sort :: "('a \<Rightarrow> 'a \<Rightarrow> bool) \<Rightarrow> 'a list \<Rightarrow> 'a list option" where
  "std_sort cmp xs = (if length xs \<le> 16 then Some (insertion_sort cmp xs) else None)"

text \<open>
  \<open>help\<close>, lines 69-87. \<open>terminal::names()\<close> is outside this file; its result, the
  registered names in the registry's order, is the parameter \<open>names\<close>. The result is
  \<open>None\<close> where the sort is not modelled (more than 16 names).
\<close>

definition print_name :: "CommandContext \<Rightarrow> string \<Rightarrow> CommandContext" where
  "print_name ctx name = ctx\<lparr>ctx_output := ctx_output ctx @ ''> '' @ name @ [LF]\<rparr>"

definition commands_help ::
  "markers \<Rightarrow> string list \<Rightarrow> CommandContext \<Rightarrow> CommandContext option" where
  "commands_help mk names ctx =
     (case std_sort names_less names of
        None \<Rightarrow> None
      | Some sorted_names \<Rightarrow>
          let ctx1 = ctx\<lparr>ctx_output := ctx_output ctx @ ''Available commands:'' @ [LF]\<rparr>;
              ctx2 = foldl print_name ctx1 sorted_names
          in Some (terminalOK mk ctx2))"

text \<open>
  Case-insensitive lexicographic order, the order the help text is specified in: the
  lexicographic order of the lower-cased byte strings, a proper prefix first.
\<close>

fun ci_lex_le :: "string \<Rightarrow> string \<Rightarrow> bool" where
  "ci_lex_le [] ys = True"
| "ci_lex_le (x # xs) [] = False"
| "ci_lex_le (x # xs) (y # ys) =
     (tolower (of_char x) < tolower (of_char y)
      \<or> (tolower (of_char x) = tolower (of_char y) \<and> ci_lex_le xs ys))"

subsection \<open>The serial transport\<close>

text \<open>
  \<open>LineBuffer<Capacity>\<close> is a class template of terminal_parsing.h, outside this file.
  \<open>serial::loop\<close> uses four of its operations, which are parameters of the model:
  \<open>append\<close>, \<open>overflow\<close>, \<open>reset\<close> and \<open>line\<close>, the last returning a \<open>Result\<close> with the
  fields \<open>line\<close> and \<open>overflow\<close> the loop reads.
\<close>

record LineResult =
  line :: string
  overflow :: bool

record 'b LineBuffer_ops =
  lb_append :: "string \<Rightarrow> 'b \<Rightarrow> 'b"
  lb_overflow :: "'b \<Rightarrow> bool"
  lb_reset :: "'b \<Rightarrow> 'b"
  lb_line :: "'b \<Rightarrow> LineResult \<times> 'b"

text \<open>
  The drain loop of lines 494-506, \<open>for (;;)\<close>: it leaves only through the \<open>break\<close>, so
  with a buffer that never returns an empty line without overflow it does not return
  (\<open>None\<close>). \<open>find_and_call\<close> (outside this file) is a parameter: what dispatching the
  line writes to the port.
\<close>

partial_function (option) drain ::
  "'b LineBuffer_ops \<Rightarrow> markers \<Rightarrow> (string \<Rightarrow> string \<Rightarrow> string) \<Rightarrow> 'b \<Rightarrow> string
     \<Rightarrow> ('b \<times> string) option" where
  "drain ops mk find_and_call buffer port =
     (let result = fst (lb_line ops buffer);
          buffer' = snd (lb_line ops buffer)
      in if overflow result
         then drain ops mk find_and_call buffer'
                (terminal_error mk ''Command line buffer overflow'' port)
         else if length (line result) = 0 then Some (buffer', port)
         else drain ops mk find_and_call buffer' (find_and_call (line result) port))"

text \<open>
  \<open>serial::loop\<close>, lines 462-507, for the recent Core (the \<open>#else\<close> branch, lines
  479-486): \<open>rx\<close> is the content of the port's receive buffer, \<open>available\<close> its length.
  The state is the static \<open>buffer\<close> and the bytes written to the port.
\<close>

definition serial_loop ::
  "'b LineBuffer_ops \<Rightarrow> markers \<Rightarrow> (string \<Rightarrow> string \<Rightarrow> string) \<Rightarrow> string \<Rightarrow> 'b \<times> string
     \<Rightarrow> ('b \<times> string) option" where
  "serial_loop ops mk find_and_call rx st =
     (let buffer = fst st; port = snd st; available = length rx
      in if available \<le> 0 then Some (buffer, port)
         else
           let buffer1 = lb_append ops rx buffer
           in if lb_overflow ops buffer1
              then drain ops mk find_and_call (lb_reset ops buffer1)
                     (terminal_error mk ''Serial buffer overflow'' port)
              else drain ops mk find_and_call buffer1 port)"

text \<open>
  Modelled from the spec: the \<open>LineBuffer\<close> itself (terminal_parsing.h is not in the
  repository's files), from sections 3 and 4.2. The state is the capacity, the pending
  bytes and the raw-overflow flag; the line-overflow flag is the \<open>overflow\<close> field of
  the result of \<open>line\<close>. The line-length bound is a parameter.
  \<^item> \<open>append\<close>: "appends up to capacity-remaining bytes; if more bytes were offered than
    fit, sets raw-overflow and discards the remainder".
  \<^item> \<open>line\<close>: "scans buffered bytes for a line terminator (\<open>\n\<close>, tolerating a preceding
    \<open>\r\<close>); if a terminator is found, returns the text before it and removes the
    consumed bytes (terminator included) from the buffer. If no terminator is found but
    buffered length exceeds the line-length bound, flags overflow=true, discards the
    buffered content up to that point, and returns no line. If buffer is empty, returns
    no line and overflow=false."
  \<^item> \<open>reset\<close>: "clears pending bytes and flags; it does not change capacity".
\<close>

record LineBuffer =
  capacity :: nat
  pending :: string
  raw_overflow :: bool

definition LineBuffer_append :: "string \<Rightarrow> LineBuffer \<Rightarrow> LineBuffer" where
  "LineBuffer_append bytes b =
     (let room = capacity b - length (pending b)
      in if length bytes > room
         then b\<lparr>pending := pending b @ take room bytes, raw_overflow := True\<rparr>
         else b\<lparr>pending := pending b @ bytes\<rparr>)"

definition LineBuffer_reset :: "LineBuffer \<Rightarrow> LineBuffer" where
  "LineBuffer_reset b = b\<lparr>pending := [], raw_overflow := False\<rparr>"

definition strip_CR :: "string \<Rightarrow> string" where
  "strip_CR s = (if s \<noteq> [] \<and> last s = CR then butlast s else s)"

definition LineBuffer_line :: "nat \<Rightarrow> LineBuffer \<Rightarrow> LineResult \<times> LineBuffer" where
  "LineBuffer_line bound b =
     (if LF \<in> set (pending b)
      then (\<lparr>line = strip_CR (takeWhile (\<lambda>c. c \<noteq> LF) (pending b)), overflow = False\<rparr>,
            b\<lparr>pending := tl (dropWhile (\<lambda>c. c \<noteq> LF) (pending b))\<rparr>)
      else if length (pending b) > bound
      then (\<lparr>line = [], overflow = True\<rparr>, b\<lparr>pending := []\<rparr>)
      else (\<lparr>line = [], overflow = False\<rparr>, b))"

definition LineBuffer_spec :: "nat \<Rightarrow> LineBuffer LineBuffer_ops" where
  "LineBuffer_spec bound =
     \<lparr>lb_append = LineBuffer_append, lb_overflow = raw_overflow,
      lb_reset = LineBuffer_reset, lb_line = LineBuffer_line bound\<rparr>"

text \<open>
  The results a drain works through: \<open>extracts ops b rs b'\<close> holds when successive
  calls of \<open>line\<close> from \<open>b\<close> return the results \<open>rs\<close>, none of which ends the loop, and
  then a result that does (no overflow, empty line), leaving the buffer \<open>b'\<close>.
\<close>

fun extracts :: "'b LineBuffer_ops \<Rightarrow> 'b \<Rightarrow> LineResult list \<Rightarrow> 'b \<Rightarrow> bool" where
  "extracts ops b [] b' =
     (\<not> overflow (fst (lb_line ops b)) \<and> line (fst (lb_line ops b)) = []
      \<and> snd (lb_line ops b) = b')"
| "extracts ops b (r # rs) b' =
     (fst (lb_line ops b) = r \<and> (overflow r \<or> line r \<noteq> [])
      \<and> extracts ops (snd (lb_line ops b)) rs b')"

text \<open>What the loop does with one result: the diagnostic on overflow, the dispatch otherwise.\<close>

definition drain_step :: "markers \<Rightarrow> (string \<Rightarrow> string \<Rightarrow> string) \<Rightarrow> string \<Rightarrow> LineResult \<Rightarrow> string" where
  "drain_step mk find_and_call port r =
     (if overflow r then terminal_error mk ''Command line buffer overflow'' port
      else find_and_call (line r) port)"

subsection \<open>The message transports\<close>

text \<open>
  \<open>PrintString\<close> (libs/PrintString.h) is a \<open>String\<close> that is also a \<open>Print\<close>, built with
  the number of bytes it reserves. \<open>api_find_and_call\<close> (outside this file) is a
  parameter: it takes the command line and the sink and returns the sink as the
  command leaves it.
\<close>

record PrintString =
  reserved :: nat
  content :: string

definition PrintString_new :: "nat \<Rightarrow> PrintString" where
  "PrintString_new n = \<lparr>reserved = n, content = []\<rparr>"

text \<open>
  The MQTT adapter, lines 515-549. The event codes, the command topic, \<open>mqttMagnitude\<close>,
  \<open>mqttTopic\<close> and \<open>TCP_MSS\<close> come from other files and are parameters.
\<close>

record mqtt_env =
  MQTT_CONNECT_EVENT :: nat
  MQTT_MESSAGE_EVENT :: nat
  MQTT_TOPIC_CMD :: string
  mqttMagnitude :: "string \<Rightarrow> string"
  mqttTopic :: "string \<Rightarrow> bool \<Rightarrow> string"
  TCP_MSS :: nat

text \<open>\<open>String::startsWith\<close> of the Arduino core: the prefix test.\<close>

definition startsWith :: "string \<Rightarrow> string \<Rightarrow> bool" where
  "startsWith s p = (length p \<le> length s \<and> take (length p) s = p)"

text \<open>
  What the callback registered with \<open>mqttRegister\<close> does: it subscribes, or schedules
  the closure that captured \<open>cmd\<close>, or does nothing.
\<close>

datatype mqtt_effect = Subscribe string | Schedule string

definition mqtt_callback :: "mqtt_env \<Rightarrow> nat \<Rightarrow> string \<Rightarrow> string \<Rightarrow> mqtt_effect option" where
  "mqtt_callback env type topic payload =
     (if type = MQTT_CONNECT_EVENT env then Some (Subscribe (MQTT_TOPIC_CMD env))
      else if type = MQTT_MESSAGE_EVENT env then
        (let t = mqttMagnitude env topic
         in if \<not> startsWith t (MQTT_TOPIC_CMD env) then None
            else if length payload = 0 then None
            else
              let cmd = payload
              in Some (Schedule
                   (if \<not> endsWith cmd [CR, LF] \<and> \<not> endsWith cmd [LF] then cmd @ [LF] else cmd)))
      else None)"

text \<open>
  The scheduled closure, lines 535-543: the list of \<open>mqttSendRaw\<close> calls it makes, each
  with its topic, payload and retain flag. The topic is a function-local static,
  computed by \<open>mqttTopic\<close> when the closure first runs; \<open>mqttTopic\<close> is taken to give the
  same topic every time.
\<close>

definition mqtt_scheduled ::
  "mqtt_env \<Rightarrow> (string \<Rightarrow> PrintString \<Rightarrow> PrintString) \<Rightarrow> string \<Rightarrow> (string \<times> string \<times> bool) list" where
  "mqtt_scheduled env api_find_and_call cmd =
     (let out = api_find_and_call cmd (PrintString_new (TCP_MSS env));
          topic = mqttTopic env (MQTT_TOPIC_CMD env) False
      in if length (content out) \<noteq> 0 then [(topic, content out, False)] else [])"

text \<open>
  The web socket adapter, \<open>onAction\<close>, lines 561-587. A value of the JSON object is a
  string or something else; the result is what the scheduled closure captured, the
  command line it will pass to \<open>api_find_and_call\<close> and the client id.
\<close>

datatype json_value = JsonString string | JsonOther

definition web_onAction ::
  "32 word \<Rightarrow> string \<Rightarrow> (string \<rightharpoonup> json_value) \<Rightarrow> (string \<times> 32 word) option" where
  "web_onAction client_id action data =
     (if take 3 action \<noteq> ''cmd'' then None
      else case data ''line'' of
             Some (JsonString cmd) \<Rightarrow> if length cmd = 0 then None else Some (cmd, client_id)
           | _ \<Rightarrow> None)"

text \<open>The closure \<open>onAction\<close> schedules: the \<open>wsPost\<close> it makes, client id and result.\<close>

definition web_scheduled ::
  "(string \<Rightarrow> PrintString \<Rightarrow> PrintString) \<Rightarrow> string \<times> 32 word \<Rightarrow> 32 word \<times> string" where
  "web_scheduled api_find_and_call job =
     (let out = api_find_and_call (fst job) (PrintString_new 256)
      in (snd job, content out))"

text \<open>
  The HTTP API adapter, the handler of lines 624-644: \<open>param\<close> is \<open>api.param("line")\<close>.
  It returns the handler's result and the command line the scheduled closure captured.
\<close>

definition api_handler :: "string \<Rightarrow> bool \<times> string option" where
  "api_handler param =
     (let cmd = param
      in if length cmd = 0 then (False, None)
         else (True, Some (if \<not> endsWith cmd [CR, LF] \<and> \<not> endsWith cmd [LF]
                           then cmd @ [LF] else cmd)))"

subsection \<open>Fixtures of the examples\<close>

text \<open>A callback that logs its call (its number, the name and the address) and does nothing else.\<close>

definition log_callback :: "nat \<Rightarrow> (nat \<times> string \<times> ip_addr_t option) list FoundCallback" where
  "log_callback i name a w = w @ [(i, name, a)]"

text \<open>A resolver that gives every name the same answer.\<close>

definition resolver_const :: "err_t \<times> ip_addr_t option \<Rightarrow> resolver" where
  "resolver_const answer h = answer"

text \<open>
  What a dispatcher does with the sink when the command of the line is HOST and its
  tokens are \<open>args\<close>: it runs \<open>host\<close>, from an empty slot, on a context with these
  arguments and this sink.
\<close>

definition run_host ::
  "markers \<Rightarrow> resolver \<Rightarrow> dns_event list \<Rightarrow> string list \<Rightarrow> string \<Rightarrow> PrintString \<Rightarrow> PrintString" where
  "run_host mk r evs args cmd out =
     (case host mk r evs \<lparr>task = None, world = \<lparr>argv = args, ctx_output = content out\<rparr>\<rparr> of
        None \<Rightarrow> out
      | Some (s, n) \<Rightarrow> out\<lparr>content := ctx_output (world s)\<rparr>)"

text \<open>A dispatcher that writes the line it is given, in brackets, and nothing else.\<close>

definition echo_line :: "string \<Rightarrow> string \<Rightarrow> string" where
  "echo_line l port = port @ ''<'' @ l @ ''>''"

definition echo_command :: "string \<Rightarrow> PrintString \<Rightarrow> PrintString" where
  "echo_command cmd out = out\<lparr>content := content out @ ''<'' @ cmd @ ''>''\<rparr>"

text \<open>
  A buffer that is the list of results \<open>line\<close> has still to hand out; when the list is
  used up, \<open>line\<close> gives no line and no overflow.
\<close>

definition scripted_line :: "LineResult list \<Rightarrow> LineResult \<times> LineResult list" where
  "scripted_line rs =
     (case rs of [] \<Rightarrow> (\<lparr>line = [], overflow = False\<rparr>, []) | r # rest \<Rightarrow> (r, rest))"

definition scripted_buffer :: "LineResult list LineBuffer_ops" where
  "scripted_buffer =
     \<lparr>lb_append = (\<lambda>bytes rs. rs), lb_overflow = (\<lambda>rs. False), lb_reset = (\<lambda>rs. []),
      lb_line = scripted_line\<rparr>"

text \<open>The markers and the MQTT parameters of the examples.\<close>

definition example_markers :: markers where
  "example_markers = \<lparr>ok_marker = ''+OK'', error_marker = ''-ERROR: ''\<rparr>"

definition example_mqtt :: mqtt_env where
  "example_mqtt =
     \<lparr>MQTT_CONNECT_EVENT = 0, MQTT_MESSAGE_EVENT = 2, MQTT_TOPIC_CMD = ''cmd'',
      mqttMagnitude = drop 4, mqttTopic = (\<lambda>m is_set. ''dev/'' @ m), TCP_MSS = 536\<rparr>"

declare drain.simps [code]

section \<open>Properties\<close>

subsection \<open>The hostname-resolution task\<close>

text \<open>
  C5. When \<open>dns_gethostbyname\<close> answers \<open>start\<close> at once with \<open>ERR_OK\<close> and an address,
  the callback is called inside \<open>start\<close>, once, with the hostname and that address, and
  the slot stays empty: \<open>started\<close> is false when \<open>start\<close> returns.
\<close>

theorem start_immediate:
  assumes "dns_gethostbyname h = (ERR_OK, Some a)" and "\<not> started s"
  shows "start dns_gethostbyname h cb s = s\<lparr>world := cb h (Some a) (world s)\<rparr>
         \<and> \<not> started (start dns_gethostbyname h cb s)"
  using assms by (simp add: start_def Task_new_def Task_found_callback0_def started_def)

theorem start_immediate_witness:
  "start (\<lambda>h. (ERR_OK, Some 0x0100007F)) ''localhost'' (log_callback 1) \<lparr>task = None, world = []\<rparr>
     = \<lparr>task = None, world = [(1, ''localhost'', Some 0x0100007F)]\<rparr>
   \<and> \<not> started (start (\<lambda>h. (ERR_OK, Some 0x0100007F)) ''localhost'' (log_callback 1)
                    \<lparr>task = None, world = []\<rparr>)"
  using start_immediate [of "\<lambda>h. (ERR_OK, Some 0x0100007F)" "''localhost''" "0x0100007F"
      "\<lparr>task = None, world = []\<rparr>" "log_callback 1"]
  by (simp add: started_def log_callback_def)

text \<open>
  C6. When the resolver's completion callback fires while a task is pending, the stored
  callback is applied once, to the name and address the resolver delivers, and the slot
  is emptied (the task, with its hostname and callback, is destroyed); a second firing
  changes nothing, so the callback is not called again.
\<close>

theorem found_callback_once:
  assumes "task s = Some t"
  shows "found_callback name a s = \<lparr>task = None, world = callback t name a (world s)\<rparr>
         \<and> \<not> started (found_callback name a s)
         \<and> found_callback name' a' (found_callback name a s) = found_callback name a s"
  using assms by (simp add: found_callback_def Task_found_callback_def started_def)

theorem found_callback_once_witness:
  "found_callback ''example.org'' (Some 0x0100007F)
     \<lparr>task = Some \<lparr>hostname = ''example.org'', callback = log_callback 1, addr = IPADDR_NONE\<rparr>,
      world = []\<rparr>
     = \<lparr>task = None, world = [(1, ''example.org'', Some 0x0100007F)]\<rparr>
   \<and> found_callback ''example.org'' None
       (found_callback ''example.org'' (Some 0x0100007F)
          \<lparr>task = Some \<lparr>hostname = ''example.org'', callback = log_callback 1, addr = IPADDR_NONE\<rparr>,
           world = []\<rparr>)
     = \<lparr>task = None, world = [(1, ''example.org'', Some 0x0100007F)]\<rparr>"
  using found_callback_once [of
      "\<lparr>task = Some \<lparr>hostname = ''example.org'', callback = log_callback 1, addr = IPADDR_NONE\<rparr>,
        world = []\<rparr>"
      "\<lparr>hostname = ''example.org'', callback = log_callback 1, addr = IPADDR_NONE\<rparr>"
      "''example.org''" "Some 0x0100007F" "''example.org''" None]
  by (simp add: log_callback_def found_callback_def)

text \<open>
  C1, as stated: a \<open>start\<close> while a task is pending does not lose the first caller's
  callback. It fails: two starts that the resolver answers with \<open>ERR_INPROGRESS\<close>, then
  both completions. The second start writes nothing (no error is reported), and of the
  two callbacks only the second is ever called, with the first request's answer.
\<close>

theorem start_while_pending_counterexample:
  "let r = resolver_const (ERR_INPROGRESS, None);
       s1 = start r ''a.example'' (log_callback 1) \<lparr>task = None, world = []\<rparr>;
       s2 = start r ''b.example'' (log_callback 2) s1;
       s3 = found_callback ''a.example'' (Some 1) s2;
       s4 = found_callback ''b.example'' (Some 2) s3
   in started s1 \<and> world s2 = [] \<and> world s4 = [(2, ''a.example'', Some 1)] \<and> \<not> started s4"
  by (simp add: start_def Task_new_def found_callback_def Task_found_callback_def
      started_def log_callback_def resolver_const_def)

text \<open>
  C1, amended. While a task is pending: when the resolver answers the second \<open>start\<close>
  with \<open>ERR_INPROGRESS\<close>, the new task replaces the pending one in the slot, nothing is
  reported, the state is the one \<open>start\<close> would give from an empty slot, and the next
  completion calls the second callback; when the resolver answers anything else, the
  pending task stays in the slot and the next completion calls its callback.
\<close>

theorem start_while_pending:
  assumes "task s = Some t1"
  shows "(fst (r h2) = ERR_INPROGRESS \<longrightarrow>
            start r h2 cb2 s = start r h2 cb2 (s\<lparr>task := None\<rparr>)
            \<and> world (start r h2 cb2 s) = world s
            \<and> found_callback n a (start r h2 cb2 s) = \<lparr>task = None, world = cb2 n a (world s)\<rparr>)
       \<and> (fst (r h2) \<noteq> ERR_INPROGRESS \<longrightarrow>
            task (start r h2 cb2 s) = Some t1
            \<and> found_callback n a (start r h2 cb2 s) =
                \<lparr>task = None, world = callback t1 n a (world (start r h2 cb2 s))\<rparr>)"
  using assms by (cases "r h2"; cases "fst (r h2)")
    (auto simp add: start_def Task_new_def found_callback_def Task_found_callback_def Let_def
       split: option.splits)

theorem start_while_pending_witness:
  "found_callback ''a.example'' (Some 1)
     (start (\<lambda>h. (ERR_INPROGRESS, None)) ''b.example'' (log_callback 2)
        \<lparr>task = Some \<lparr>hostname = ''a.example'', callback = log_callback 1, addr = IPADDR_NONE\<rparr>,
         world = []\<rparr>)
     = \<lparr>task = None, world = [(2, ''a.example'', Some 1)]\<rparr>
   \<and> found_callback ''a.example'' (Some 1)
       (start (\<lambda>h. (ERR_OK, Some 2)) ''b.example'' (log_callback 2)
          \<lparr>task = Some \<lparr>hostname = ''a.example'', callback = log_callback 1, addr = IPADDR_NONE\<rparr>,
           world = []\<rparr>)
     = \<lparr>task = None, world = [(2, ''b.example'', Some 2), (1, ''a.example'', Some 1)]\<rparr>"
  using
    start_while_pending [of
      "\<lparr>task = Some \<lparr>hostname = ''a.example'', callback = log_callback 1, addr = IPADDR_NONE\<rparr>,
        world = []\<rparr>"
      "\<lparr>hostname = ''a.example'', callback = log_callback 1, addr = IPADDR_NONE\<rparr>"
      "\<lambda>h. (ERR_INPROGRESS, None)" "''b.example''" "log_callback 2" "''a.example''" "Some 1"]
    start_while_pending [of
      "\<lparr>task = Some \<lparr>hostname = ''a.example'', callback = log_callback 1, addr = IPADDR_NONE\<rparr>,
        world = []\<rparr>"
      "\<lparr>hostname = ''a.example'', callback = log_callback 1, addr = IPADDR_NONE\<rparr>"
      "\<lambda>h. (ERR_OK, Some 2)" "''b.example''" "log_callback 2" "''a.example''" "Some 1"]
  by (simp add: log_callback_def start_def Task_new_def Task_found_callback0_def)

subsection \<open>The HOST command\<close>

text \<open>
  C4. When \<open>argv\<close> does not have exactly two elements, \<open>host\<close> writes the usage error
  (the failure marker, \<open>HOST <hostname>\<close>, a newline) to the context's output and returns
  at once: the resolver is not consulted, the slot is as it was, \<open>delay\<close> is never called.
\<close>

theorem host_usage:
  assumes "length (argv (world s)) \<noteq> 2"
  shows "host mk dns_gethostbyname evs s =
           Some (s\<lparr>world := (world s)\<lparr>ctx_output :=
                    ctx_output (world s) @ error_marker mk @ ''HOST <hostname>'' @ [LF]\<rparr>\<rparr>, 0)"
  using assms by (simp add: host_def terminalError_def terminal_error_def)

theorem host_usage_witness:
  "host \<lparr>ok_marker = ''+OK'', error_marker = ''-ERROR: ''\<rparr> (\<lambda>h. (ERR_INPROGRESS, None)) []
     \<lparr>task = None, world = \<lparr>argv = [''HOST''], ctx_output = []\<rparr>\<rparr>
   = Some (\<lparr>task = None,
            world = \<lparr>argv = [''HOST''], ctx_output = ''-ERROR: HOST <hostname>'' @ [LF]\<rparr>\<rparr>, 0)"
  using host_usage [of "\<lparr>task = None, world = \<lparr>argv = [''HOST''], ctx_output = []\<rparr>\<rparr>"
      "\<lparr>ok_marker = ''+OK'', error_marker = ''-ERROR: ''\<rparr>" "\<lambda>h. (ERR_INPROGRESS, None)" "[]"]
  by simp

text \<open>
  C10. When \<open>dns_gethostbyname\<close> answers with an error (neither \<open>ERR_OK\<close> nor
  \<open>ERR_INPROGRESS\<close>) and no task was pending, \<open>start\<close> leaves the state as it was for
  every callback (the callback is not called, the slot stays empty), and \<open>host\<close> returns
  without a single \<open>delay\<close> and without having written anything: of the state it
  changes only \<open>argv[1]\<close>, which the call moved from.
\<close>

theorem host_resolver_error:
  assumes "argv (world s) = [c, h]" and "\<not> started s"
    and "fst (dns_gethostbyname h) \<noteq> ERR_OK" and "fst (dns_gethostbyname h) \<noteq> ERR_INPROGRESS"
  shows "start dns_gethostbyname h cb s = s \<and> \<not> started (start dns_gethostbyname h cb s)
         \<and> host mk dns_gethostbyname evs s = Some (s\<lparr>world := (world s)\<lparr>argv := [c, []]\<rparr>\<rparr>, 0)
         \<and> (\<forall>s' n. host mk dns_gethostbyname evs s = Some (s', n) \<longrightarrow>
               task s' = None \<and> ctx_output (world s') = ctx_output (world s) \<and> n = 0)"
proof -
  have st: "start dns_gethostbyname h cb' s' = s'" for cb' and s' :: "CommandContext dns"
    using assms(3,4) by (cases "dns_gethostbyname h"; cases "fst (dns_gethostbyname h)")
      (simp_all add: start_def Task_new_def)
  let ?moved = "s\<lparr>world := (world s)\<lparr>argv := [c, []]\<rparr>\<rparr>"
  have idle: "\<not> started ?moved" using assms(2) by (simp add: started_def)
  have "wait_loop evs ?moved 0 = Some (?moved, 0)"
    using idle by (cases evs) simp_all
  then have h: "host mk dns_gethostbyname evs s = Some (?moved, 0)"
    using st assms(1) by (simp add: host_def Let_def)
  show ?thesis using st assms(2) h by (auto simp add: started_def)
qed

theorem host_resolver_error_witness:
  "host \<lparr>ok_marker = ''+OK'', error_marker = ''-ERROR: ''\<rparr> (\<lambda>h. (ERR_ARG, None))
     [None, Some (''a b'', None)]
     \<lparr>task = None, world = \<lparr>argv = [''HOST'', ''a b''], ctx_output = []\<rparr>\<rparr>
   = Some (\<lparr>task = None, world = \<lparr>argv = [''HOST'', []], ctx_output = []\<rparr>\<rparr>, 0)"
  using host_resolver_error [of "\<lparr>task = None, world = \<lparr>argv = [''HOST'', ''a b''], ctx_output = []\<rparr>\<rparr>"
      "''HOST''" "''a b''" "\<lambda>h. (ERR_ARG, None)" host_callback
      "\<lparr>ok_marker = ''+OK'', error_marker = ''-ERROR: ''\<rparr>" "[None, Some (''a b'', None)]"]
  by (simp add: started_def)

subsection \<open>The HELP command\<close>

text \<open>The example of the spec: no name is a prefix of another, and the names come out in order.\<close>

lemma help_spec_example:
  "map_option ctx_output (commands_help example_markers [''Reset'', ''Adc'', ''Info'']
      \<lparr>argv = [''HELP''], ctx_output = []\<rparr>)
   = Some (''Available commands:'' @ [LF] @ ''> Adc'' @ [LF] @ ''> Info'' @ [LF] @ ''> Reset'' @ [LF]
     @ ''+OK'' @ [LF])"
  by (simp add: commands_help_def std_sort_def insertion_sort_def insert_sorted_def
      names_less_def tolower_def print_name_def terminalOK_def terminal_ok_def
      example_markers_def Let_def)

text \<open>
  C3 at a registry that lists \<open>HELP\<close>, \<open>RESET.SAFE\<close>, \<open>RESET\<close> in this order. The
  comparison stops after the five bytes of \<open>RESET\<close>, so neither of \<open>RESET\<close> and
  \<open>RESET.SAFE\<close> is less than the other, the sort leaves the two as they are, and
  \<open>help\<close> prints \<open>RESET.SAFE\<close> before \<open>RESET\<close>, although \<open>RESET\<close> comes first in
  case-insensitive lexicographic order.
\<close>

theorem help_prefix_names:
  "\<not> names_less ''RESET'' ''RESET.SAFE'' \<and> \<not> names_less ''RESET.SAFE'' ''RESET''
   \<and> map_option ctx_output (commands_help example_markers [''HELP'', ''RESET.SAFE'', ''RESET'']
        \<lparr>argv = [''HELP''], ctx_output = []\<rparr>)
     = Some (''Available commands:'' @ [LF] @ ''> HELP'' @ [LF] @ ''> RESET.SAFE'' @ [LF]
       @ ''> RESET'' @ [LF] @ ''+OK'' @ [LF])
   \<and> \<not> ci_lex_le ''RESET.SAFE'' ''RESET'' \<and> ci_lex_le ''RESET'' ''RESET.SAFE''"
  by (simp add: commands_help_def std_sort_def insertion_sort_def insert_sorted_def
      names_less_def tolower_def print_name_def terminalOK_def terminal_ok_def
      example_markers_def Let_def)

subsection \<open>The serial transport\<close>

lemma drain_step_overflow:
  "overflow r \<Longrightarrow>
   drain_step mk fac port r = terminal_error mk ''Command line buffer overflow'' port"
  by (simp add: drain_step_def)

lemma drain_step_line:
  "\<not> overflow r \<Longrightarrow> drain_step mk fac port r = fac (line r) port"
  by (simp add: drain_step_def)

lemma drain_extracts:
  "extracts ops b rs b' \<Longrightarrow>
   drain ops mk fac b port = Some (b', foldl (drain_step mk fac) port rs)"
proof (induction rs arbitrary: b port)
  case Nil
  then show ?case by (subst drain.simps) (simp add: Let_def)
next
  case (Cons r rs)
  from Cons.prems have r: "fst (lb_line ops b) = r" and c: "overflow r \<or> line r \<noteq> []"
    and e: "extracts ops (snd (lb_line ops b)) rs b'" by simp_all
  show ?case
  proof (cases "overflow r")
    case True
    then show ?thesis
      using r Cons.IH [OF e] drain_step_overflow [of r mk fac port]
      by (subst drain.simps) (simp add: Let_def)
  next
    case False
    with c have "line r \<noteq> []" by simp
    then show ?thesis
      using False r Cons.IH [OF e] drain_step_line [of r mk fac port]
      by (subst drain.simps) (simp add: Let_def)
  qed
qed

text \<open>
  C7. The drain loop returns once \<open>line\<close> gives a result without overflow and without
  a line, and until then it handles the results in the order \<open>line\<close> gives them: for a
  result with the overflow flag it writes the diagnostic \<open>Command line buffer overflow\<close>
  (which differs from the raw diagnostic \<open>Serial buffer overflow\<close>) and goes on
  draining, and every line extracted is dispatched, in the order of extraction.
\<close>

theorem serial_drain_order:
  assumes "extracts ops b rs b'"
  shows "drain ops mk fac b port = Some (b', foldl (drain_step mk fac) port rs)
         \<and> (\<forall>r p. overflow r \<longrightarrow>
               drain_step mk fac p r = terminal_error mk ''Command line buffer overflow'' p
               \<and> drain_step mk fac p r \<noteq> terminal_error mk ''Serial buffer overflow'' p)
         \<and> (\<forall>r p. \<not> overflow r \<longrightarrow> drain_step mk fac p r = fac (line r) p)"
  using drain_extracts [OF assms]
  by (simp add: drain_step_def terminal_error_def)

theorem serial_drain_order_witness:
  "drain (LineBuffer_spec 8) example_markers echo_line
     \<lparr>capacity = 128, pending = ''0123456789'', raw_overflow = False\<rparr> []
   = Some (\<lparr>capacity = 128, pending = [], raw_overflow = False\<rparr>,
           ''-ERROR: Command line buffer overflow'' @ [LF])
   \<and> drain (LineBuffer_spec 8) example_markers echo_line
       \<lparr>capacity = 128, pending = ''foo'' @ [CR, LF] @ ''bar baz'' @ [LF] @ ''qu'',
        raw_overflow = False\<rparr> []
   = Some (\<lparr>capacity = 128, pending = ''qu'', raw_overflow = False\<rparr>, ''<foo><bar baz>'')
   \<and> drain scripted_buffer example_markers echo_line
       [\<lparr>line = ''adc 0'', overflow = False\<rparr>, \<lparr>line = [], overflow = True\<rparr>,
        \<lparr>line = ''heap'', overflow = False\<rparr>, \<lparr>line = ''uptime'', overflow = False\<rparr>] []
   = Some ([], ''<adc 0>-ERROR: Command line buffer overflow'' @ [LF] @ ''<heap><uptime>'')"
  using
    serial_drain_order [of "LineBuffer_spec 8"
      "\<lparr>capacity = 128, pending = ''0123456789'', raw_overflow = False\<rparr>"
      "[\<lparr>line = [], overflow = True\<rparr>]"
      "\<lparr>capacity = 128, pending = [], raw_overflow = False\<rparr>"
      example_markers echo_line "[]"]
    serial_drain_order [of "LineBuffer_spec 8"
      "\<lparr>capacity = 128, pending = ''foo'' @ [CR, LF] @ ''bar baz'' @ [LF] @ ''qu'',
        raw_overflow = False\<rparr>"
      "[\<lparr>line = ''foo'', overflow = False\<rparr>, \<lparr>line = ''bar baz'', overflow = False\<rparr>]"
      "\<lparr>capacity = 128, pending = ''qu'', raw_overflow = False\<rparr>"
      example_markers echo_line "[]"]
    serial_drain_order [of scripted_buffer
      "[\<lparr>line = ''adc 0'', overflow = False\<rparr>, \<lparr>line = [], overflow = True\<rparr>,
        \<lparr>line = ''heap'', overflow = False\<rparr>, \<lparr>line = ''uptime'', overflow = False\<rparr>]"
      "[\<lparr>line = ''adc 0'', overflow = False\<rparr>, \<lparr>line = [], overflow = True\<rparr>,
        \<lparr>line = ''heap'', overflow = False\<rparr>, \<lparr>line = ''uptime'', overflow = False\<rparr>]"
      "[]" example_markers echo_line "[]"]
  by (simp add: LineBuffer_spec_def LineBuffer_line_def strip_CR_def drain_step_def
      terminal_error_def example_markers_def echo_line_def scripted_buffer_def
      scripted_line_def)

text \<open>
  The buffer of the spec hands out the lines in the order of their bytes: when it
  holds the lines \<open>ls\<close>, each followed by its newline, and then an unfinished rest, the
  drain dispatches \<open>ls\<close> from first to last and leaves the rest.
\<close>

lemma LineBuffer_line_head:
  assumes "l \<noteq> []" and "LF \<notin> set l" and "last l \<noteq> CR"
  shows "LineBuffer_line bound \<lparr>capacity = c, pending = l @ LF # rest, raw_overflow = f\<rparr> =
           (\<lparr>line = l, overflow = False\<rparr>, \<lparr>capacity = c, pending = rest, raw_overflow = f\<rparr>)"
proof -
  have t: "takeWhile (\<lambda>c. c \<noteq> LF) (l @ LF # rest) = l"
    using assms(2) by (induction l) auto
  have d: "dropWhile (\<lambda>c. c \<noteq> LF) (l @ LF # rest) = LF # rest"
    using assms(2) by (induction l) auto
  show ?thesis using assms(1,3) t d by (simp add: LineBuffer_line_def strip_CR_def)
qed

lemma LineBuffer_line_rest:
  assumes "LF \<notin> set rest" and "length rest \<le> bound"
  shows "LineBuffer_line bound \<lparr>capacity = c, pending = rest, raw_overflow = f\<rparr> =
           (\<lparr>line = [], overflow = False\<rparr>, \<lparr>capacity = c, pending = rest, raw_overflow = f\<rparr>)"
  using assms by (simp add: LineBuffer_line_def)

lemma LineBuffer_extracts_lines:
  assumes "\<forall>l\<in>set ls. l \<noteq> [] \<and> LF \<notin> set l \<and> last l \<noteq> CR"
    and "LF \<notin> set rest" and "length rest \<le> bound"
  shows "extracts (LineBuffer_spec bound)
           \<lparr>capacity = c, pending = concat (map (\<lambda>l. l @ [LF]) ls) @ rest, raw_overflow = f\<rparr>
           (map (\<lambda>l. \<lparr>line = l, overflow = False\<rparr>) ls)
           \<lparr>capacity = c, pending = rest, raw_overflow = f\<rparr>"
  using assms(1)
proof (induction ls)
  case Nil
  then show ?case using LineBuffer_line_rest [OF assms(2,3)] by (simp add: LineBuffer_spec_def)
next
  case (Cons l ls)
  then have l: "l \<noteq> []" "LF \<notin> set l" "last l \<noteq> CR" by simp_all
  show ?case
    using Cons LineBuffer_line_head [OF l, of bound c _ f] by (simp add: LineBuffer_spec_def)
qed

lemma foldl_drain_step_lines:
  "foldl (drain_step mk fac) port (map (\<lambda>l. \<lparr>line = l, overflow = False\<rparr>) ls) =
   foldl (\<lambda>p l. fac l p) port ls"
  by (induction ls arbitrary: port) (simp_all add: drain_step_def)

lemma drain_lines_in_order:
  assumes "\<forall>l\<in>set ls. l \<noteq> [] \<and> LF \<notin> set l \<and> last l \<noteq> CR"
    and "LF \<notin> set rest" and "length rest \<le> bound"
  shows "drain (LineBuffer_spec bound) mk fac
           \<lparr>capacity = c, pending = concat (map (\<lambda>l. l @ [LF]) ls) @ rest, raw_overflow = f\<rparr> port
         = Some (\<lparr>capacity = c, pending = rest, raw_overflow = f\<rparr>, foldl (\<lambda>p l. fac l p) port ls)"
  using drain_extracts [OF LineBuffer_extracts_lines [OF assms]]
  by (simp add: foldl_drain_step_lines)

text \<open>
  The buffer of the spec, once reset, gives no line and no overflow; on raw overflow
  the loop leaves it empty and dispatches nothing.
\<close>

lemma LineBuffer_line_reset:
  "LineBuffer_line bound (LineBuffer_reset b) =
     (\<lparr>line = [], overflow = False\<rparr>, LineBuffer_reset b)"
  by (simp add: LineBuffer_line_def LineBuffer_reset_def)

lemma serial_raw_overflow_spec:
  assumes "capacity b - length (pending b) < length rx"
  shows "serial_loop (LineBuffer_spec bound) mk fac rx (b, port) =
           Some (b\<lparr>pending := [], raw_overflow := False\<rparr>,
                 terminal_error mk ''Serial buffer overflow'' port)"
proof -
  have "rx \<noteq> []" using assms by auto
  then show ?thesis
    using assms
    apply (simp add: serial_loop_def Let_def LineBuffer_spec_def LineBuffer_append_def)
    apply (subst drain.simps)
    apply (simp add: Let_def LineBuffer_line_def LineBuffer_reset_def)
    done
qed


text \<open>
  C9. When the buffer reports raw overflow after the append, \<open>loop\<close> writes the
  diagnostic \<open>Serial buffer overflow\<close> and resets the buffer before the first call of
  \<open>line\<close>. With a buffer that gives no line once reset, the loop returns with the reset
  buffer and nothing but the diagnostic written: whatever the buffer held, complete
  lines included, is gone and nothing is dispatched (the result does not depend on
  \<open>find_and_call\<close>).
\<close>

theorem serial_raw_overflow:
  assumes "rx \<noteq> []" and "lb_overflow ops (lb_append ops rx b)"
    and "lb_line ops (lb_reset ops (lb_append ops rx b)) = (\<lparr>line = [], overflow = False\<rparr>, b')"
  shows "serial_loop ops mk fac rx (b, port) =
           Some (b', terminal_error mk ''Serial buffer overflow'' port)"
  using assms by (simp add: serial_loop_def Let_def) (subst drain.simps, simp add: Let_def)

theorem serial_raw_overflow_witness:
  "serial_loop (LineBuffer_spec 8) example_markers echo_line (''help'' @ [LF] @ ''reset'' @ [LF])
     (\<lparr>capacity = 8, pending = [], raw_overflow = False\<rparr>, [])
   = Some (\<lparr>capacity = 8, pending = [], raw_overflow = False\<rparr>,
           ''-ERROR: Serial buffer overflow'' @ [LF])"
  using serial_raw_overflow [of "''help'' @ [LF] @ ''reset'' @ [LF]" "LineBuffer_spec 8"
      "\<lparr>capacity = 8, pending = [], raw_overflow = False\<rparr>"
      "\<lparr>capacity = 8, pending = [], raw_overflow = False\<rparr>" example_markers echo_line "[]"]
  by (simp add: LineBuffer_spec_def LineBuffer_append_def LineBuffer_reset_def
      LineBuffer_line_def terminal_error_def example_markers_def)

subsection \<open>The message transports\<close>

lemma endsWith_snoc: "endsWith (s @ [c]) [c]"
  by (simp add: endsWith_def)

lemma endsWith_CR_LF: "endsWith s [CR, LF] \<Longrightarrow> endsWith s [LF]"
proof -
  assume "endsWith s [CR, LF]"
  then have "s = take (length s - 2) s @ [CR, LF]"
    by (metis append_take_drop_id endsWith_def length_Cons list.size(3) numeral_2_eq_2)
  then obtain p where "s = p @ [CR, LF]" ..
  then show ?thesis by (simp add: endsWith_def)
qed

text \<open>The MQTT and the HTTP API adapters pass on a line that ends in a newline.\<close>

lemma mqtt_callback_terminated:
  "mqtt_callback env type topic payload = Some (Schedule cmd) \<Longrightarrow> endsWith cmd [LF]"
  by (auto simp add: mqtt_callback_def Let_def endsWith_snoc endsWith_CR_LF split: if_splits)

lemma api_handler_terminated:
  "api_handler param = (ok, Some cmd) \<Longrightarrow> endsWith cmd [LF]"
  by (auto simp add: api_handler_def Let_def endsWith_snoc endsWith_CR_LF split: if_splits)

lemma mqtt_callback_appends:
  "type = MQTT_MESSAGE_EVENT env \<Longrightarrow> type \<noteq> MQTT_CONNECT_EVENT env \<Longrightarrow>
   startsWith (mqttMagnitude env topic) (MQTT_TOPIC_CMD env) \<Longrightarrow> payload \<noteq> [] \<Longrightarrow>
   \<not> endsWith payload [LF] \<Longrightarrow> \<not> endsWith payload [CR, LF] \<Longrightarrow>
   mqtt_callback env type topic payload = Some (Schedule (payload @ [LF]))"
  by (simp add: mqtt_callback_def Let_def)

lemma api_handler_appends:
  "param \<noteq> [] \<Longrightarrow> \<not> endsWith param [LF] \<Longrightarrow> \<not> endsWith param [CR, LF] \<Longrightarrow>
   api_handler param = (True, Some (param @ [LF]))"
  by (simp add: api_handler_def Let_def)

text \<open>
  C2 at the web socket action \<open>cmd\<close> with the line \<open>help\<close>: the line is not empty and
  ends in no newline, and \<open>onAction\<close> schedules the closure with the line as it came;
  the closure passes exactly \<open>help\<close> to \<open>api_find_and_call\<close>, with no terminator.
\<close>

theorem web_onAction_unterminated:
  "web_onAction 7 ''cmd'' [''line'' \<mapsto> JsonString ''help''] = Some (''help'', 7)
   \<and> \<not> endsWith ''help'' [LF] \<and> \<not> endsWith ''help'' [CR, LF]
   \<and> web_scheduled echo_command (''help'', 7) = (7, ''<help>'')
   \<and> mqtt_callback example_mqtt 2 ''dev/cmd'' ''help'' = Some (Schedule (''help'' @ [LF]))
   \<and> api_handler ''help'' = (True, Some (''help'' @ [LF]))"
  by (simp add: web_onAction_def web_scheduled_def echo_command_def PrintString_new_def
      endsWith_def mqtt_callback_def example_mqtt_def startsWith_def api_handler_def Let_def)

text \<open>
  C8, as stated: the final contents of the sink are published for every command. It
  fails for a command that leaves the sink empty: HOST with a name the resolver
  rejects writes nothing, and the closure publishes nothing.
\<close>

theorem mqtt_reply_counterexample:
  "content (run_host example_markers (resolver_const (ERR_ARG, None)) [] [''HOST'', ''a..b'']
      (''HOST a..b'' @ [LF]) (PrintString_new 536)) = []
   \<and> mqtt_scheduled example_mqtt
       (run_host example_markers (resolver_const (ERR_ARG, None)) [] [''HOST'', ''a..b''])
       (''HOST a..b'' @ [LF]) = []"
  by (simp add: mqtt_scheduled_def run_host_def host_def start_def Task_new_def started_def
      resolver_const_def PrintString_new_def example_mqtt_def Let_def)

text \<open>
  C8, amended. When the command has finished and the sink is not empty, the closure
  publishes the contents of the sink, once, to the command reply topic, not retained;
  when the sink is empty it publishes nothing.
\<close>

theorem mqtt_reply:
  "mqtt_scheduled env api_find_and_call cmd =
     (if content (api_find_and_call cmd (PrintString_new (TCP_MSS env))) = [] then []
      else [(mqttTopic env (MQTT_TOPIC_CMD env) False,
             content (api_find_and_call cmd (PrintString_new (TCP_MSS env))), False)])"
  by (simp add: mqtt_scheduled_def Let_def)

theorem mqtt_reply_witness:
  "mqtt_scheduled example_mqtt echo_command (''help'' @ [LF])
   = [(''dev/cmd'', ''<help'' @ [LF] @ ''>'', False)]"
  using mqtt_reply [of example_mqtt echo_command "''help'' @ [LF]"]
  by (simp add: echo_command_def PrintString_new_def example_mqtt_def)

end

